theory Spec2Isabelle
  imports Main "HOL-Library.Word" "HOL-Library.AList" "HOL-Library.Sublist"
begin

section \<open>Python values used by main.py\<close>

text \<open>
  The exceptions that the modelled code can meet. All of them are subclasses of Python's
  \<open>Exception\<close>; the payload is the message that \<open>str(error)\<close> shows.
  \<open>ClientError\<close> stands for every transport error of the HTTP client other than
  \<open>ClientConnectorError\<close>.
\<close>

datatype exn =
    ClientConnectorError string
  | ClientError string
  | OSError string
  | KeyError string
  | IndexError string
  | ValueError string
  | ZeroDivisionError

fun str_exn :: "exn \<Rightarrow> string" where
  "str_exn (ClientConnectorError m) = m"
| "str_exn (ClientError m) = m"
| "str_exn (OSError m) = m"
| "str_exn (KeyError k) = [CHR 0x27] @ k @ [CHR 0x27]"
| "str_exn (IndexError m) = m"
| "str_exn (ValueError m) = m"
| "str_exn ZeroDivisionError = ''integer division or modulo by zero''"

subsection \<open>\<open>str.format\<close>\<close>

text \<open>
  \<open>template.format(*args, **kwargs)\<close> for the replacement fields main.py uses: \<open>{}\<close>
  takes the next positional argument (IndexError when there is none) and \<open>{name}\<close>
  looks \<open>name\<close> up among the keyword arguments (KeyError when it is absent). Fields
  are replaced from left to right, so the first failing field decides the exception.
  The fourth argument counts the automatic fields seen so far, the fifth holds the
  name of the field being read, if the scan is inside braces.
\<close>

definition get_field :: "string \<Rightarrow> string list \<Rightarrow> (string \<rightharpoonup> string) \<Rightarrow> nat \<Rightarrow> exn + string" where
  "get_field name args kwargs k =
     (if name = [] then
        (if k < length args then Inr (args ! k)
         else Inl (IndexError ''Replacement index out of range for positional args tuple''))
      else (case kwargs name of None \<Rightarrow> Inl (KeyError name) | Some v \<Rightarrow> Inr v))"

fun format_scan ::
  "string \<Rightarrow> string list \<Rightarrow> (string \<rightharpoonup> string) \<Rightarrow> nat \<Rightarrow> string option \<Rightarrow> exn + string" where
  "format_scan [] args kwargs k None = Inr []"
| "format_scan [] args kwargs k (Some name) =
     Inl (ValueError ''expected } before end of string'')"
| "format_scan (c # cs) args kwargs k None =
     (if c = CHR ''{'' then format_scan cs args kwargs k (Some [])
      else (case format_scan cs args kwargs k None of
              Inl e \<Rightarrow> Inl e
            | Inr r \<Rightarrow> Inr (c # r)))"
| "format_scan (c # cs) args kwargs k (Some name) =
     (if c = CHR ''}'' then
        (case get_field name args kwargs k of
           Inl e \<Rightarrow> Inl e
         | Inr v \<Rightarrow>
            (case format_scan cs args kwargs (if name = [] then Suc k else k) None of
               Inl e \<Rightarrow> Inl e
             | Inr r \<Rightarrow> Inr (v @ r)))
      else format_scan cs args kwargs k (Some (name @ [c])))"

definition py_format :: "string \<Rightarrow> string list \<Rightarrow> (string \<rightharpoonup> string) \<Rightarrow> exn + string" where
  "py_format template args kwargs = format_scan template args kwargs 0 None"

subsection \<open>\<open>str\<close> and \<open>int\<close> on decimal numerals\<close>

fun digits :: "nat \<Rightarrow> string" where
  "digits n =
     (if n < 10 then [''0123456789'' ! n]
      else digits (n div 10) @ [''0123456789'' ! (n mod 10)])"

declare digits.simps [simp del]

definition str_int :: "int \<Rightarrow> string" where
  "str_int i = (if i < 0 then CHR ''-'' # digits (nat (- i)) else digits (nat i))"

definition is_digit :: "char \<Rightarrow> bool" where
  "is_digit c = (48 \<le> (of_char c :: nat) \<and> (of_char c :: nat) \<le> 57)"

definition is_space :: "char \<Rightarrow> bool" where
  "is_space c = ((of_char c :: nat) = 32 \<or> (9 \<le> (of_char c :: nat) \<and> (of_char c :: nat) \<le> 13))"

definition strip :: "string \<Rightarrow> string" where
  "strip s = rev (dropWhile is_space (rev (dropWhile is_space s)))"

fun no_double_underscore :: "string \<Rightarrow> bool" where
  "no_double_underscore (a # b # cs) =
     ((a \<noteq> CHR ''_'' \<or> b \<noteq> CHR ''_'') \<and> no_double_underscore (b # cs))"
| "no_double_underscore _ = True"

definition valid_numeral :: "string \<Rightarrow> bool" where
  "valid_numeral b =
     (b \<noteq> [] \<and> is_digit (hd b) \<and> is_digit (last b)
      \<and> list_all (\<lambda>c. is_digit c \<or> c = CHR ''_'') b \<and> no_double_underscore b)"

definition numeral_value :: "string \<Rightarrow> nat" where
  "numeral_value b = fold (\<lambda>c n. 10 * n + ((of_char c :: nat) - 48)) (filter is_digit b) 0"

text \<open>
  \<open>int(s)\<close> for a string: surrounding whitespace is dropped, one sign is allowed, single
  underscores may separate digits; anything else is a ValueError.
\<close>

definition py_int :: "string \<Rightarrow> exn + int" where
  "py_int s =
     (let t = strip s;
          negative = (t \<noteq> [] \<and> hd t = CHR ''-'');
          body = (if t \<noteq> [] \<and> (hd t = CHR ''-'' \<or> hd t = CHR ''+'') then tl t else t)
      in if valid_numeral body
         then Inr (if negative then - int (numeral_value body) else int (numeral_value body))
         else Inl (ValueError (''invalid literal for int() with base 10: '' @ s)))"

section \<open>The range arithmetic of \<open>download_chunks\<close>\<close>

text \<open>
  The body of the loop \<open>for i in range(NUM_OF_BLOCKS)\<close>: the start and end offsets of
  segment \<open>i\<close>. The end offset is replaced by \<open>content_length\<close> for the index 2, as the
  source writes it.
\<close>

definition segment_range :: "int \<Rightarrow> int \<Rightarrow> int \<Rightarrow> int \<times> int" where
  "segment_range content_length chunk_size i =
     (let start = i * chunk_size;
          end = start + chunk_size - 1;
          end = (if i = 2 then content_length else end)
      in (start, end))"

text \<open>
  The ranges in the order the loop creates the tasks. \<open>NUM_OF_BLOCKS\<close> comes from the
  module \<open>constants\<close>, which is not among the sources, so it is a parameter here.
  Floor division by zero raises ZeroDivisionError; \<open>range\<close> of a negative number is empty.
\<close>

definition plan_ranges :: "int \<Rightarrow> int \<Rightarrow> exn + (int \<times> int) list" where
  "plan_ranges num_of_blocks content_length =
     (if num_of_blocks = 0 then Inl ZeroDivisionError
      else Inr (map (segment_range content_length (content_length div num_of_blocks))
                  [0..num_of_blocks - 1]))"

section \<open>The world outside the program\<close>

type_synonym byte = "8 word"

text \<open>
  What \<open>TEMP_DIR\<close> is on disk: nothing, something that is not a directory, or a
  directory with its entries (file name and content), in the order \<open>os.listdir\<close>
  returns them. A file that is created is put last.
\<close>

datatype tmp_node = Absent | NotDir | Dir "(string \<times> byte list) list"

datatype level = ERROR | INFO

text \<open>
  The operations on the outside world, in the order they happen: the HEAD request,
  \<open>os.makedirs\<close>, a GET request with its Range header, opening a file of \<open>TEMP_DIR\<close>
  for writing, \<open>os.listdir\<close>, opening a file of \<open>TEMP_DIR\<close> for reading.
\<close>

datatype event =
    EvHead
  | EvMakedirs
  | EvGet string
  | EvOpenW string
  | EvListdir
  | EvOpenR string

record world =
  tmp :: tmp_node
  log :: "(level \<times> string) list"
  trace :: "event list"

text \<open>
  How the collaborators answer. \<open>head_reply\<close>: the HEAD request raises, or returns the
  response headers. \<open>get_reply\<close>, by the value of the Range header: the GET request
  raises, or the body arrives as a list of blocks (each at most \<open>BLOCK_SIZE\<close> bytes),
  after which the stream may still raise. \<open>makedirs_error\<close>: the message of the OSError
  of \<open>os.makedirs\<close>, if it fails. \<open>read_error\<close>: for a file name, the message of the
  OSError when the file cannot be opened for reading. \<open>sha256\<close> is \<open>hashlib.sha256\<close>,
  a function from the content to the 256 bits of the digest.
\<close>

record env =
  NUM_OF_BLOCKS :: int
  head_reply :: "exn + (string \<rightharpoonup> string)"
  get_reply :: "string \<Rightarrow> exn + (byte list list \<times> exn option)"
  makedirs_error :: "string option"
  read_error :: "string \<Rightarrow> string option"
  sha256 :: "byte list \<Rightarrow> 256 word"

definition emit :: "event \<Rightarrow> world \<Rightarrow> world" where
  "emit ev w = w\<lparr>trace := trace w @ [ev]\<rparr>"

definition logger_error :: "string \<Rightarrow> world \<Rightarrow> world" where
  "logger_error msg w = w\<lparr>log := log w @ [(ERROR, msg)]\<rparr>"

definition logger_info :: "string \<Rightarrow> world \<Rightarrow> world" where
  "logger_info msg w = w\<lparr>log := log w @ [(INFO, msg)]\<rparr>"

text \<open>
  An \<open>except\<close> handler that logs \<open>template.format(error)\<close> and returns \<open>result\<close>;
  an exception of \<open>format\<close> itself would leave the handler.
\<close>

definition log_failure :: "string \<Rightarrow> exn \<Rightarrow> 'a \<Rightarrow> world \<Rightarrow> (exn + 'a) \<times> world" where
  "log_failure template error result w =
     (case py_format template [str_exn error] Map.empty of
        Inl e \<Rightarrow> (Inl e, w)
      | Inr msg \<Rightarrow> (Inr result, logger_error msg w))"

section \<open>The functions of main.py\<close>

subsection \<open>\<open>get_content_length\<close>\<close>

text \<open>
  The \<open>try\<close> body: the HEAD request, then \<open>int(response.headers.get('Content-Length', 0))\<close>.
\<close>

definition head_content_length :: "env \<Rightarrow> exn + int" where
  "head_content_length env =
     (case head_reply env of
        Inl e \<Rightarrow> Inl e
      | Inr headers \<Rightarrow>
         (case headers ''Content-Length'' of
            None \<Rightarrow> Inr 0
          | Some v \<Rightarrow> py_int v))"

text \<open>
  Only \<open>ClientConnectorError\<close> is caught: it is logged and the function returns
  \<open>None\<close>. Every other exception leaves the function.
\<close>

definition get_content_length :: "env \<Rightarrow> world \<Rightarrow> (exn + int option) \<times> world" where
  "get_content_length env w =
     (case head_content_length env of
        Inr content_length \<Rightarrow> (Inr (Some content_length), emit EvHead w)
      | Inl (ClientConnectorError m) \<Rightarrow>
          log_failure ''Failed to connect to server: {}'' (ClientConnectorError m) None
            (emit EvHead w)
      | Inl e \<Rightarrow> (Inl e, emit EvHead w))"

subsection \<open>\<open>create_temp_dir\<close>\<close>

definition create_temp_dir :: "env \<Rightarrow> world \<Rightarrow> (exn + bool) \<times> world" where
  "create_temp_dir env w =
     (if tmp w = Absent then
        (case makedirs_error env of
           Some m \<Rightarrow> log_failure ''Failed to create directory: {}'' (OSError m) False
                       (emit EvMakedirs w)
         | None \<Rightarrow> (Inr True, (emit EvMakedirs w)\<lparr>tmp := Dir []\<rparr>))
      else (Inr True, w))"

subsection \<open>\<open>download_chunk\<close>\<close>

text \<open>
  The \<open>try\<close> body of \<open>download_chunk\<close>: the GET request, then the file
  \<open>temp_<start>_<end>\<close> is opened for writing (created or truncated) and the blocks of
  the body are written to it one after the other. When the stream raises after some
  blocks, the file keeps the blocks written so far.
\<close>

definition fetch_to_file :: "env \<Rightarrow> string \<Rightarrow> int \<Rightarrow> int \<Rightarrow> world \<Rightarrow> (exn + unit) \<times> world" where
  "fetch_to_file env headers start end w =
     (case get_reply env headers of
        Inl e \<Rightarrow> (Inl e, emit (EvGet headers) w)
      | Inr (blocks, failure) \<Rightarrow>
         (case py_format ''temp_{}_{}'' [str_int start, str_int end] Map.empty of
            Inl e \<Rightarrow> (Inl e, emit (EvGet headers) w)
          | Inr name \<Rightarrow>
             (case tmp w of
                Dir entries \<Rightarrow>
                  (case failure of
                     None \<Rightarrow> Inr ()
                   | Some e \<Rightarrow> Inl e,
                   (emit (EvOpenW name) (emit (EvGet headers) w))
                     \<lparr>tmp := Dir (AList.update name (concat blocks) entries)\<rparr>)
              | _ \<Rightarrow>
                  (Inl (OSError ''No such file or directory''),
                   emit (EvOpenW name) (emit (EvGet headers) w)))))"

text \<open>
  The Range header is built before the \<open>try\<close>. The handler \<open>except Exception\<close> logs
  the error and returns; the function then returns \<open>None\<close>, as on success.
\<close>

definition download_chunk :: "env \<Rightarrow> int \<Rightarrow> int \<Rightarrow> world \<Rightarrow> (exn + unit) \<times> world" where
  "download_chunk env start end w =
     (case py_format ''bytes={}-{}'' [str_int start, str_int end] Map.empty of
        Inl e \<Rightarrow> (Inl e, w)
      | Inr headers \<Rightarrow>
         (case fetch_to_file env headers start end w of
            (Inr u, w1) \<Rightarrow> (Inr (), w1)
          | (Inl error, w1) \<Rightarrow> log_failure ''Failed to download chunk: {}'' error () w1))"

subsection \<open>\<open>download_chunks\<close>\<close>

text \<open>
  The tasks run one after the other in the order of their creation, which is the order
  in which the event loop starts them; each result is what the task returned or raised.
\<close>

fun run_tasks :: "env \<Rightarrow> (int \<times> int) list \<Rightarrow> world \<Rightarrow> (exn + unit) list \<times> world" where
  "run_tasks env [] w = ([], w)"
| "run_tasks env ((start, end) # rs) w =
     (case download_chunk env start end w of
        (r, w1) \<Rightarrow> (case run_tasks env rs w1 of (results, w2) \<Rightarrow> (r # results, w2)))"

text \<open>
  \<open>asyncio.gather\<close> raises the exception of a task that raised; \<open>except Exception\<close>
  logs it and the function returns \<open>False\<close>. Otherwise it returns \<open>True\<close>.
\<close>

definition download_chunks :: "env \<Rightarrow> int \<Rightarrow> world \<Rightarrow> (exn + bool) \<times> world" where
  "download_chunks env content_length w =
     (case plan_ranges (NUM_OF_BLOCKS env) content_length of
        Inl e \<Rightarrow> (Inl e, w)
      | Inr tasks \<Rightarrow>
         (case run_tasks env tasks w of
            (results, w1) \<Rightarrow>
              (case find isl results of
                 None \<Rightarrow> (Inr True, w1)
               | Some r \<Rightarrow>
                   log_failure ''Failed to download repository: {}'' (projl r) False w1)))"

subsection \<open>\<open>download_and_hash_file\<close>\<close>

text \<open>
  \<open>hexdigest()\<close>: the 256 bits of the digest as 64 lower-case hexadecimal digits, the
  most significant first.
\<close>

definition hexdigest :: "256 word \<Rightarrow> string" where
  "hexdigest d =
     map (\<lambda>i. ''0123456789abcdef'' ! (unat (drop_bit (4 * i) d) mod 16)) (rev [0..<64])"

text \<open>
  The file is named by its name inside \<open>TEMP_DIR\<close>. Opening a file that does not exist
  or cannot be read raises OSError; otherwise the whole content is read and hashed.
  The function has no handler of its own.
\<close>

definition download_and_hash_file :: "env \<Rightarrow> string \<Rightarrow> world \<Rightarrow> (exn + string) \<times> world" where
  "download_and_hash_file env filename w =
     (case tmp w of
        Dir entries \<Rightarrow>
          (case map_of entries filename of
             None \<Rightarrow> (Inl (OSError ''No such file or directory''), emit (EvOpenR filename) w)
           | Some content \<Rightarrow>
              (case read_error env filename of
                 Some m \<Rightarrow> (Inl (OSError m), emit (EvOpenR filename) w)
               | None \<Rightarrow> (Inr (hexdigest (sha256 env content)), emit (EvOpenR filename) w)))
      | _ \<Rightarrow> (Inl (OSError ''No such file or directory''), emit (EvOpenR filename) w))"

subsection \<open>\<open>compute_file_hashes\<close>\<close>

text \<open>
  The \<open>try\<close> body for one file: the digest, then
  \<open>logger.info("{filename}: {hash_digest}".format(filename, hash_digest))\<close>, where both
  arguments of \<open>format\<close> are positional.
\<close>

definition hash_and_report :: "env \<Rightarrow> string \<Rightarrow> world \<Rightarrow> (exn + unit) \<times> world" where
  "hash_and_report env filename w =
     (case download_and_hash_file env filename w of
        (Inl e, w1) \<Rightarrow> (Inl e, w1)
      | (Inr hash_digest, w1) \<Rightarrow>
         (case py_format ''{filename}: {hash_digest}'' [filename, hash_digest] Map.empty of
            Inl e \<Rightarrow> (Inl e, w1)
          | Inr msg \<Rightarrow> (Inr (), logger_info msg w1)))"

text \<open>
  The loop over the listing: the handler \<open>except Exception\<close> logs the error and returns
  \<open>False\<close> at once; after the last file the function returns \<open>True\<close>.
\<close>

fun hash_files :: "env \<Rightarrow> string list \<Rightarrow> world \<Rightarrow> (exn + bool) \<times> world" where
  "hash_files env [] w = (Inr True, w)"
| "hash_files env (filename # rest) w =
     (case hash_and_report env filename w of
        (Inr u, w1) \<Rightarrow> hash_files env rest w1
      | (Inl error, w1) \<Rightarrow> log_failure ''Failed to hash file: {}'' error False w1)"

text \<open>\<open>os.listdir\<close> stands before the \<open>try\<close>: its OSError leaves the function.\<close>

definition compute_file_hashes :: "env \<Rightarrow> world \<Rightarrow> (exn + bool) \<times> world" where
  "compute_file_hashes env w =
     (case tmp w of
        Dir entries \<Rightarrow> hash_files env (map fst entries) (emit EvListdir w)
      | _ \<Rightarrow> (Inl (OSError ''No such file or directory''), emit EvListdir w))"

subsection \<open>\<open>download_repo\<close>\<close>

text \<open>
  The sequence of the four stages with its three gates and the last call, over the
  stage functions the names are bound to when \<open>download_repo\<close> runs. The function
  returns \<open>None\<close> on every path; an exception of a stage leaves it.
\<close>

definition download_repo_with ::
  "(world \<Rightarrow> (exn + int option) \<times> world) \<Rightarrow> (world \<Rightarrow> (exn + bool) \<times> world) \<Rightarrow>
   (int \<Rightarrow> world \<Rightarrow> (exn + bool) \<times> world) \<Rightarrow> (world \<Rightarrow> (exn + bool) \<times> world) \<Rightarrow>
   world \<Rightarrow> (exn + unit) \<times> world" where
  "download_repo_with get_length create_dir download hash_all w =
     (case get_length w of
        (Inl e, w1) \<Rightarrow> (Inl e, w1)
      | (Inr None, w1) \<Rightarrow> (Inr (), w1)
      | (Inr (Some content_length), w1) \<Rightarrow>
         (case create_dir w1 of
            (Inl e, w2) \<Rightarrow> (Inl e, w2)
          | (Inr False, w2) \<Rightarrow> (Inr (), w2)
          | (Inr True, w2) \<Rightarrow>
             (case download content_length w2 of
                (Inl e, w3) \<Rightarrow> (Inl e, w3)
              | (Inr False, w3) \<Rightarrow> (Inr (), w3)
              | (Inr True, w3) \<Rightarrow>
                 (case hash_all w3 of
                    (Inl e, w4) \<Rightarrow> (Inl e, w4)
                  | (Inr b, w4) \<Rightarrow> (Inr (), w4)))))"

definition download_repo :: "env \<Rightarrow> world \<Rightarrow> (exn + unit) \<times> world" where
  "download_repo env =
     download_repo_with (get_content_length env) (create_temp_dir env)
       (download_chunks env) (compute_file_hashes env)"

text \<open>The stage an event belongs to.\<close>

fun stage_of :: "event \<Rightarrow> nat" where
  "stage_of EvHead = 0"
| "stage_of EvMakedirs = 1"
| "stage_of (EvGet headers) = 2"
| "stage_of (EvOpenW name) = 2"
| "stage_of EvListdir = 3"
| "stage_of (EvOpenR name) = 3"

section \<open>Measures on planned ranges\<close>

text \<open>An offset is covered when it lies in one of the end-inclusive ranges.\<close>

definition covers :: "(int \<times> int) list \<Rightarrow> int \<Rightarrow> bool" where
  "covers ranges x = list_ex (\<lambda>(start, end). start \<le> x \<and> x \<le> end) ranges"

text \<open>Two end-inclusive ranges overlap when they share an offset.\<close>

fun overlap :: "int \<times> int \<Rightarrow> int \<times> int \<Rightarrow> bool" where
  "overlap (s1, e1) (s2, e2) = (max s1 s2 \<le> min e1 e2)"

section \<open>Concrete collaborators\<close>

text \<open>
  A server that reports 3000 bytes and answers every range request with the three bytes
  1, 2, 3 in two blocks; three segments; a file system without failures. The digest
  function here is a stand-in that only the concrete runs below use.
\<close>

definition quiet_env :: env where
  "quiet_env =
     \<lparr>NUM_OF_BLOCKS = 3,
      head_reply = Inr [''Content-Length'' \<mapsto> ''3000''],
      get_reply = (\<lambda>headers. Inr ([[1, 2], [3]], None)),
      makedirs_error = None,
      read_error = (\<lambda>name. None),
      sha256 = (\<lambda>content. word_of_nat (length content))\<rparr>"

text \<open>The same server, but the request for the second segment fails.\<close>

definition reset_env :: env where
  "reset_env =
     quiet_env\<lparr>get_reply := (\<lambda>headers.
        if headers = ''bytes=1000-1999'' then Inl (ClientError ''Connection reset by peer'')
        else Inr ([[1, 2], [3]], None))\<rparr>"

text \<open>The same server, but its response has no header at all.\<close>

definition no_length_env :: env where
  "no_length_env = quiet_env\<lparr>head_reply := Inr Map.empty\<rparr>"

text \<open>Nothing on disk, nothing logged, nothing done yet.\<close>

definition empty_world :: world where
  "empty_world = \<lparr>tmp = Absent, log = [], trace = []\<rparr>"

text \<open>One file of the directory cannot be opened for reading.\<close>

definition locked_env :: env where
  "locked_env =
     quiet_env\<lparr>read_error := (\<lambda>name. if name = ''b'' then Some ''Permission denied'' else None)\<rparr>"

text \<open>The same server, but it cannot be reached for the size request.\<close>

definition refused_env :: env where
  "refused_env = quiet_env\<lparr>head_reply := Inl (ClientConnectorError ''Cannot connect to host'')\<rparr>"

text \<open>The same server, but the directory cannot be created.\<close>

definition readonly_env :: env where
  "readonly_env = quiet_env\<lparr>makedirs_error := Some ''Permission denied''\<rparr>"

text \<open>The same server, but the resource is to be split into no segment at all.\<close>

definition undivided_env :: env where
  "undivided_env = quiet_env\<lparr>NUM_OF_BLOCKS := 0\<rparr>"

section \<open>What an aborted digest pass leaves behind\<close>


section \<open>The events of one stage\<close>

text \<open>
  \<open>runs_stage k w w'\<close>: from the world \<open>w\<close> to the world \<open>w'\<close> the trace has grown by
  events of the stage \<open>k\<close> only.
\<close>

definition runs_stage :: "nat \<Rightarrow> world \<Rightarrow> world \<Rightarrow> bool" where
  "runs_stage k w w' =
     (\<exists>evs. trace w' = trace w @ evs \<and> list_all (\<lambda>e. stage_of e = k) evs)"

section \<open>The messages and names that are formatted\<close>

lemma log_failure_connect:
  "log_failure ''Failed to connect to server: {}'' e r w =
     (Inr r, logger_error (''Failed to connect to server: '' @ str_exn e) w)"
  by (simp add: log_failure_def py_format_def get_field_def)

lemma log_failure_mkdir:
  "log_failure ''Failed to create directory: {}'' e r w =
     (Inr r, logger_error (''Failed to create directory: '' @ str_exn e) w)"
  by (simp add: log_failure_def py_format_def get_field_def)

lemma log_failure_chunk:
  "log_failure ''Failed to download chunk: {}'' e r w =
     (Inr r, logger_error (''Failed to download chunk: '' @ str_exn e) w)"
  by (simp add: log_failure_def py_format_def get_field_def)

lemma log_failure_repo:
  "log_failure ''Failed to download repository: {}'' e r w =
     (Inr r, logger_error (''Failed to download repository: '' @ str_exn e) w)"
  by (simp add: log_failure_def py_format_def get_field_def)

lemma log_failure_hash:
  "log_failure ''Failed to hash file: {}'' e r w =
     (Inr r, logger_error (''Failed to hash file: '' @ str_exn e) w)"
  by (simp add: log_failure_def py_format_def get_field_def)

lemma format_range_header:
  "py_format ''bytes={}-{}'' [a, b] kwargs = Inr (''bytes='' @ a @ ''-'' @ b)"
  by (simp add: py_format_def get_field_def)

lemma format_file_name:
  "py_format ''temp_{}_{}'' [a, b] kwargs = Inr (''temp_'' @ a @ ''_'' @ b)"
  by (simp add: py_format_def get_field_def)

lemma format_report:
  "py_format ''{filename}: {hash_digest}'' args Map.empty = Inl (KeyError ''filename'')"
  by (simp add: py_format_def get_field_def)

text \<open>The facts that evaluate a run on concrete collaborators.\<close>

lemmas run_defs =
  download_chunks_def plan_ranges_def segment_range_def download_chunk_def fetch_to_file_def
  format_range_header format_file_name log_failure_chunk str_int_def digits.simps
  emit_def logger_error_def upto.simps quiet_env_def reset_env_def empty_world_def
  no_length_env_def locked_env_def
  download_repo_def download_repo_with_def get_content_length_def head_content_length_def
  create_temp_dir_def compute_file_hashes_def hash_and_report_def download_and_hash_file_def
  format_report log_failure_hash py_int_def strip_def valid_numeral_def numeral_value_def
  is_digit_def is_space_def

section \<open>Planned ranges\<close>

text \<open>
  C8. For a total size of 3000 and three segments the planned ranges are (0, 999),
  (1000, 1999), (2000, 3000), in this order.
\<close>

theorem plan_ranges_3000_3:
  "plan_ranges 3 3000 = Inr [(0, 999), (1000, 1999), (2000, 3000)]"
proof -
  have "[0..(2::int)] = [0, 1, 2]"
    by (simp add: upto.simps)
  then show ?thesis
    by (simp add: plan_ranges_def segment_range_def)
qed

text \<open>
  C2. The claim: for every total size above 0 and every segment count from 1 on, the
  planned ranges do not overlap, cover every offset below the total size and number the
  segment count. The code: with two segments and three bytes the offset 2 is in no
  range; with four segments and 4000 bytes the third range runs over the fourth.
\<close>

theorem planned_ranges_gap_and_overlap:
  "plan_ranges 2 3 = Inr [(0, 0), (1, 1)]
   \<and> \<not> covers [(0, 0), (1, 1)] 2
   \<and> plan_ranges 4 4000 = Inr [(0, 999), (1000, 1999), (2000, 4000), (3000, 3999)]
   \<and> overlap (2000, 4000) (3000, 3999)"
  by (simp add: plan_ranges_def segment_range_def upto.simps covers_def)

text \<open>
  C3. The claim: for every segment count from 1 on it is the last segment, and only it,
  whose end is the total size. The code: it is the segment of index 2, whatever the
  count; with five segments the last one ends at 4999, with one segment at 9 of 10.
\<close>

theorem forced_end_is_index_two:
  "plan_ranges 5 5000 =
     Inr [(0, 999), (1000, 1999), (2000, 5000), (3000, 3999), (4000, 4999)]
   \<and> plan_ranges 1 10 = Inr [(0, 9)]"
  by (simp add: plan_ranges_def segment_range_def upto.simps)

section \<open>Errors of a segment\<close>

lemma download_chunk_result:
  "fst (download_chunk env start end w) = Inr ()"
  by (simp add: download_chunk_def format_range_header log_failure_chunk
      split: prod.splits sum.splits)

lemma run_tasks_results:
  "find isl (fst (run_tasks env tasks w)) = None"
proof (induction tasks arbitrary: w)
  case Nil
  then show ?case by simp
next
  case (Cons t ts)
  obtain start "end" where t: "t = (start, end)"
    by (cases t)
  obtain r w1 where d: "download_chunk env start end w = (r, w1)"
    by (cases "download_chunk env start end w")
  obtain results w2 where rest: "run_tasks env ts w1 = (results, w2)"
    by (cases "run_tasks env ts w1")
  have "r = Inr ()"
    using download_chunk_result [of env start "end" w] d by simp
  moreover have "find isl results = None"
    using Cons.IH [of w1] rest by simp
  ultimately show ?case
    using t d rest by simp
qed

lemma download_chunks_result:
  "fst (download_chunks env content_length w) =
     (if NUM_OF_BLOCKS env = 0 then Inl ZeroDivisionError else Inr True)"
proof (cases "NUM_OF_BLOCKS env = 0")
  case True
  then show ?thesis
    by (simp add: download_chunks_def plan_ranges_def)
next
  case False
  define tasks where
    "tasks = map (segment_range content_length (content_length div NUM_OF_BLOCKS env))
               [0..NUM_OF_BLOCKS env - 1]"
  obtain results w1 where run: "run_tasks env tasks w = (results, w1)"
    by (cases "run_tasks env tasks w")
  have "find isl results = None"
    using run_tasks_results [of env tasks w] run by simp
  then show ?thesis
    using False run by (simp add: download_chunks_def plan_ranges_def tasks_def)
qed

lemma download_chunk_logs:
  "download_chunk env start end w =
     (case fetch_to_file env (''bytes='' @ str_int start @ ''-'' @ str_int end) start end w of
        (Inr u, w1) \<Rightarrow> (Inr (), w1)
      | (Inl error, w1) \<Rightarrow>
          (Inr (), logger_error (''Failed to download chunk: '' @ str_exn error) w1))"
  by (simp add: download_chunk_def format_range_header log_failure_chunk
      split: prod.splits sum.splits)

text \<open>
  C10. For every input \<open>download_chunk\<close> returns normally. An error of the request or of
  the file is taken by the function's own handler, which logs it as
  \<open>Failed to download chunk: <error>\<close> and changes nothing else; without an error nothing
  is logged. So no task of \<open>download_chunks\<close> ends with an exception, and
  \<open>download_chunks\<close> never takes its \<open>except\<close> branch: it returns \<open>True\<close> (or raises
  ZeroDivisionError before any task when \<open>NUM_OF_BLOCKS\<close> is 0).
\<close>

theorem download_chunk_never_raises:
  "fst (download_chunk env start end w) = Inr ()
   \<and> (fetch_to_file env (''bytes='' @ str_int start @ ''-'' @ str_int end) start end w
         = (Inl e, w1)
       \<longrightarrow> download_chunk env start end w =
             (Inr (), logger_error (''Failed to download chunk: '' @ str_exn e) w1))
   \<and> (fetch_to_file env (''bytes='' @ str_int start @ ''-'' @ str_int end) start end w
         = (Inr u, w2)
       \<longrightarrow> download_chunk env start end w = (Inr (), w2))
   \<and> find isl (fst (run_tasks env tasks w)) = None
   \<and> fst (download_chunks env content_length w) =
       (if NUM_OF_BLOCKS env = 0 then Inl ZeroDivisionError else Inr True)"
proof -
  let ?fetch = "fetch_to_file env (''bytes='' @ str_int start @ ''-'' @ str_int end) start end w"
  have returns: "fst (download_chunk env start end w) = Inr ()"
    by (rule download_chunk_result)
  have logged: "?fetch = (Inl e, w1) \<longrightarrow> download_chunk env start end w =
      (Inr (), logger_error (''Failed to download chunk: '' @ str_exn e) w1)"
    by (simp add: download_chunk_logs)
  have silent: "?fetch = (Inr u, w2) \<longrightarrow> download_chunk env start end w = (Inr (), w2)"
    by (simp add: download_chunk_logs)
  have joined: "find isl (fst (run_tasks env tasks w)) = None"
    by (rule run_tasks_results)
  have result: "fst (download_chunks env content_length w) =
      (if NUM_OF_BLOCKS env = 0 then Inl ZeroDivisionError else Inr True)"
    by (rule download_chunks_result)
  show ?thesis
    by (intro conjI; fact)
qed

text \<open>
  The two cases at concrete requests: a request that is reset is logged by
  \<open>download_chunk\<close>, a request that succeeds leaves the log as it was.
\<close>

theorem download_chunk_never_raises_witness:
  "fetch_to_file reset_env ''bytes=1000-1999'' 1000 1999 (empty_world\<lparr>tmp := Dir []\<rparr>) =
     (Inl (ClientError ''Connection reset by peer''),
      \<lparr>tmp = Dir [], log = [], trace = [EvGet ''bytes=1000-1999'']\<rparr>)
   \<and> download_chunk reset_env 1000 1999 (empty_world\<lparr>tmp := Dir []\<rparr>) =
     (Inr (),
      \<lparr>tmp = Dir [],
       log = [(ERROR, ''Failed to download chunk: Connection reset by peer'')],
       trace = [EvGet ''bytes=1000-1999'']\<rparr>)
   \<and> fetch_to_file quiet_env ''bytes=0-999'' 0 999 (empty_world\<lparr>tmp := Dir []\<rparr>) =
     (Inr (),
      \<lparr>tmp = Dir [(''temp_0_999'', [1, 2, 3])], log = [],
       trace = [EvGet ''bytes=0-999'', EvOpenW ''temp_0_999'']\<rparr>)
   \<and> download_chunk quiet_env 0 999 (empty_world\<lparr>tmp := Dir []\<rparr>) =
     (Inr (),
      \<lparr>tmp = Dir [(''temp_0_999'', [1, 2, 3])], log = [],
       trace = [EvGet ''bytes=0-999'', EvOpenW ''temp_0_999'']\<rparr>)"
proof -
  let ?w = "empty_world\<lparr>tmp := Dir []\<rparr>"
  let ?w1 = "\<lparr>tmp = Dir [], log = [], trace = [EvGet ''bytes=1000-1999'']\<rparr>"
  let ?w2 = "\<lparr>tmp = Dir [(''temp_0_999'', [1, 2, 3])], log = [],
              trace = [EvGet ''bytes=0-999'', EvOpenW ''temp_0_999'']\<rparr>"
  have range1: "''bytes='' @ str_int 1000 @ ''-'' @ str_int 1999 = ''bytes=1000-1999''"
    by (simp add: str_int_def digits.simps)
  have range2: "''bytes='' @ str_int 0 @ ''-'' @ str_int 999 = ''bytes=0-999''"
    by (simp add: str_int_def digits.simps)
  have failed: "fetch_to_file reset_env ''bytes=1000-1999'' 1000 1999 ?w =
      (Inl (ClientError ''Connection reset by peer''), ?w1)"
    by (simp add: run_defs)
  have fetched: "fetch_to_file quiet_env ''bytes=0-999'' 0 999 ?w = (Inr (), ?w2)"
    by (simp add: run_defs)
  have "download_chunk reset_env 1000 1999 ?w =
      (Inr (), logger_error (''Failed to download chunk: ''
         @ str_exn (ClientError ''Connection reset by peer'')) ?w1)"
    using download_chunk_never_raises [where env = reset_env and start = 1000 and ?end = 1999 and w = ?w
        and e = "ClientError ''Connection reset by peer''" and ?w1.0 = ?w1] failed range1
    by simp
  moreover have "download_chunk quiet_env 0 999 ?w = (Inr (), ?w2)"
    using download_chunk_never_raises [where env = quiet_env and start = 0 and ?end = 999 and w = ?w
        and u = "()" and ?w2.0 = ?w2] fetched range2
    by simp
  ultimately show ?thesis
    using failed fetched by (simp add: logger_error_def)
qed

text \<open>
  C1. The claim: when the fetch of one segment fails, \<open>download_chunks\<close> returns failure
  and the session does not go on to the digests. The code: with the second of three
  requests reset, the error is logged by \<open>download_chunk\<close>, \<open>download_chunks\<close> returns
  \<open>True\<close>, and the session lists the directory and opens a file for its digest. The
  other two segments were fetched and written.
\<close>

theorem failed_segment_transfer_succeeds:
  "fst (download_chunks reset_env 3000 (empty_world\<lparr>tmp := Dir []\<rparr>)) = Inr True
   \<and> log (snd (download_chunks reset_env 3000 (empty_world\<lparr>tmp := Dir []\<rparr>))) =
       [(ERROR, ''Failed to download chunk: Connection reset by peer'')]
   \<and> trace (snd (download_repo reset_env empty_world)) =
       [EvHead, EvMakedirs, EvGet ''bytes=0-999'', EvOpenW ''temp_0_999'',
        EvGet ''bytes=1000-1999'', EvGet ''bytes=2000-3000'', EvOpenW ''temp_2000_3000'',
        EvListdir, EvOpenR ''temp_0_999'']"
  by (simp add: run_defs)

section \<open>The digests\<close>

lemma hexdigest_length: "length (hexdigest d) = 64"
  by (simp add: hexdigest_def)

lemma hex_digit_mem: "''0123456789abcdef'' ! (n mod 16) \<in> set ''0123456789abcdef''"
  by (rule nth_mem) simp

lemma hexdigest_chars: "list_all (\<lambda>c. c \<in> set ''0123456789abcdef'') (hexdigest d)"
  unfolding hexdigest_def list_all_iff using hex_digit_mem by auto

lemma download_and_hash_file_tmp:
  "tmp (snd (download_and_hash_file env filename w)) = tmp w"
  by (simp add: download_and_hash_file_def emit_def split: tmp_node.splits option.splits)

lemma download_and_hash_file_readable:
  "tmp w = Dir entries \<Longrightarrow> map_of entries filename = Some content \<Longrightarrow>
   read_error env filename = None \<Longrightarrow>
   fst (download_and_hash_file env filename w) = Inr (hexdigest (sha256 env content))"
  by (simp add: download_and_hash_file_def)

text \<open>
  C9. The digest of a file is determined by its content: \<open>hashlib.sha256\<close> is a function
  of the bytes, and \<open>download_and_hash_file\<close> adds nothing else to it. For a readable file
  the result is the hexadecimal digest of the content; computing it leaves the directory
  as it was, computing it again gives the same string, and so does computing it in any
  other state of the world in which the file has the same content. The string always
  has 64 characters, each a digit or a letter from a to f.
\<close>

theorem digest_deterministic:
  assumes "tmp w = Dir entries"
    and "map_of entries filename = Some content"
    and "read_error env filename = None"
    and "tmp w' = Dir entries'"
    and "map_of entries' filename = Some content"
  shows "fst (download_and_hash_file env filename w) = Inr (hexdigest (sha256 env content))
    \<and> tmp (snd (download_and_hash_file env filename w)) = tmp w
    \<and> fst (download_and_hash_file env filename (snd (download_and_hash_file env filename w))) =
        fst (download_and_hash_file env filename w)
    \<and> fst (download_and_hash_file env filename w') =
        fst (download_and_hash_file env filename w)
    \<and> length (hexdigest (sha256 env content)) = 64
    \<and> list_all (\<lambda>c. c \<in> set ''0123456789abcdef'') (hexdigest (sha256 env content))"
proof -
  let ?w1 = "snd (download_and_hash_file env filename w)"
  have first: "fst (download_and_hash_file env filename w) = Inr (hexdigest (sha256 env content))"
    using assms(1-3) by (rule download_and_hash_file_readable)
  have kept: "tmp ?w1 = tmp w"
    by (rule download_and_hash_file_tmp)
  have "tmp ?w1 = Dir entries"
    using kept assms(1) by simp
  then have again: "fst (download_and_hash_file env filename ?w1) =
      Inr (hexdigest (sha256 env content))"
    using assms(2,3) by (rule download_and_hash_file_readable)
  have other: "fst (download_and_hash_file env filename w') =
      Inr (hexdigest (sha256 env content))"
    using assms(4,5,3) by (rule download_and_hash_file_readable)
  show ?thesis
    using first kept again other hexdigest_length hexdigest_chars by simp
qed

text \<open>
  At a concrete file, in two different worlds that hold it with the same three bytes.
\<close>

theorem digest_deterministic_witness:
  "fst (download_and_hash_file quiet_env ''temp_0_999''
          (empty_world\<lparr>tmp := Dir [(''temp_0_999'', [1, 2, 3])]\<rparr>)) = Inr (hexdigest 3)
   \<and> fst (download_and_hash_file quiet_env ''temp_0_999''
          \<lparr>tmp = Dir [(''a'', []), (''temp_0_999'', [1, 2, 3])],
           log = [(INFO, ''x'')], trace = [EvListdir]\<rparr>) = Inr (hexdigest 3)
   \<and> length (hexdigest 3) = 64"
proof -
  let ?w = "empty_world\<lparr>tmp := Dir [(''temp_0_999'', [1, 2, 3])]\<rparr>"
  let ?w' = "\<lparr>tmp = Dir [(''a'', []), (''temp_0_999'', [1, 2, 3])],
           log = [(INFO, ''x'')], trace = [EvListdir]\<rparr>"
  have a: "tmp ?w = Dir [(''temp_0_999'', [1, 2, 3])]"
    by (simp add: empty_world_def)
  have b: "map_of [(''temp_0_999'', [1, 2, 3 :: byte])] ''temp_0_999'' = Some [1, 2, 3]"
    by simp
  have c: "read_error quiet_env ''temp_0_999'' = None"
    by (simp add: quiet_env_def)
  have d: "tmp ?w' = Dir [(''a'', []), (''temp_0_999'', [1, 2, 3])]"
    by simp
  have e: "map_of [(''a'', []), (''temp_0_999'', [1, 2, 3 :: byte])] ''temp_0_999'' = Some [1, 2, 3]"
    by simp
  have s: "sha256 quiet_env [1, 2, 3] = 3"
    by (simp add: quiet_env_def)
  show ?thesis
    using digest_deterministic [OF a b c d e] s by simp
qed

text \<open>
  C5. The claim: over a directory in which every file is readable the digest stage
  reports each file's name with its digest and succeeds. The code: with one readable
  file the digest is computed, then formatting the report raises KeyError, which the
  handler logs as a failure to hash; the stage returns \<open>False\<close> and reports nothing.
\<close>

theorem readable_directory_digest_fails:
  "compute_file_hashes quiet_env (empty_world\<lparr>tmp := Dir [(''temp_0_999'', [1, 2, 3])]\<rparr>) =
     (Inr False,
      \<lparr>tmp = Dir [(''temp_0_999'', [1, 2, 3])],
       log = [(ERROR, ''Failed to hash file: '' @ [CHR 0x27] @ ''filename'' @ [CHR 0x27])],
       trace = [EvListdir, EvOpenR ''temp_0_999'']\<rparr>)"
  by (simp add: run_defs)

lemma hash_and_report_shape:
  "(\<exists>e. hash_and_report env filename w = (Inl e, emit (EvOpenR filename) w))
   \<or> (\<exists>msg. hash_and_report env filename w =
         (Inr (), logger_info msg (emit (EvOpenR filename) w)))"
  by (auto simp add: hash_and_report_def download_and_hash_file_def
      split: tmp_node.splits option.splits sum.splits)






section \<open>The stages of a session\<close>

text \<open>Every function of main.py adds to the trace events of its own stage only.\<close>

lemma runs_stage_refl: "runs_stage k w w"
  by (simp add: runs_stage_def)

lemma runs_stage_trans:
  "runs_stage k w w1 \<Longrightarrow> runs_stage k w1 w2 \<Longrightarrow> runs_stage k w w2"
  unfolding runs_stage_def
proof -
  assume "\<exists>evs. trace w1 = trace w @ evs \<and> list_all (\<lambda>e. stage_of e = k) evs"
    and "\<exists>evs. trace w2 = trace w1 @ evs \<and> list_all (\<lambda>e. stage_of e = k) evs"
  then obtain a b where "trace w1 = trace w @ a" "list_all (\<lambda>e. stage_of e = k) a"
    "trace w2 = trace w1 @ b" "list_all (\<lambda>e. stage_of e = k) b"
    by blast
  then have "trace w2 = trace w @ (a @ b) \<and> list_all (\<lambda>e. stage_of e = k) (a @ b)"
    by simp
  then show "\<exists>evs. trace w2 = trace w @ evs \<and> list_all (\<lambda>e. stage_of e = k) evs"
    by blast
qed

lemma runs_stage_emit: "stage_of ev = k \<Longrightarrow> runs_stage k w (emit ev w)"
  by (simp add: runs_stage_def emit_def)

lemma runs_stage_same_trace: "trace w' = trace w \<Longrightarrow> runs_stage k w w'"
  by (simp add: runs_stage_def)

lemma get_content_length_trace:
  "trace (snd (get_content_length env w)) = trace w @ [EvHead]"
  by (simp add: get_content_length_def log_failure_connect logger_error_def emit_def
      split: sum.splits exn.splits)

lemma get_content_length_tmp:
  "tmp (snd (get_content_length env w)) = tmp w"
  by (simp add: get_content_length_def log_failure_connect logger_error_def emit_def
      split: sum.splits exn.splits)

lemma create_temp_dir_stage:
  "runs_stage 1 w (snd (create_temp_dir env w))"
  by (simp add: create_temp_dir_def log_failure_mkdir logger_error_def emit_def
      runs_stage_def split: option.splits)

lemma download_chunk_stage:
  "runs_stage 2 w (snd (download_chunk env start end w))"
  by (simp add: download_chunk_logs fetch_to_file_def format_file_name logger_error_def
      emit_def runs_stage_def split: sum.splits prod.splits option.splits tmp_node.splits)

lemma run_tasks_stage:
  "runs_stage 2 w (snd (run_tasks env tasks w))"
proof (induction tasks arbitrary: w)
  case Nil
  show ?case by (simp add: runs_stage_refl)
next
  case (Cons t ts)
  obtain start "end" where t: "t = (start, end)"
    by (cases t)
  let ?w1 = "snd (download_chunk env start end w)"
  have "snd (run_tasks env (t # ts) w) = snd (run_tasks env ts ?w1)"
    using t by (simp split: prod.splits)
  moreover have "runs_stage 2 w ?w1"
    by (rule download_chunk_stage)
  moreover have "runs_stage 2 ?w1 (snd (run_tasks env ts ?w1))"
    by (rule Cons.IH)
  ultimately show ?case
    using runs_stage_trans by simp
qed

lemma download_chunks_stage:
  "runs_stage 2 w (snd (download_chunks env content_length w))"
proof (cases "plan_ranges (NUM_OF_BLOCKS env) content_length")
  case (Inl e)
  then show ?thesis
    by (simp add: download_chunks_def runs_stage_refl)
next
  case (Inr tasks)
  have "trace (snd (download_chunks env content_length w)) =
      trace (snd (run_tasks env tasks w))"
    using Inr
    by (simp add: download_chunks_def log_failure_repo logger_error_def
        split: prod.splits option.splits)
  then show ?thesis
    using run_tasks_stage [of w env tasks] by (simp add: runs_stage_def)
qed

lemma hash_and_report_stage:
  "runs_stage 3 w (snd (hash_and_report env filename w))"
  using hash_and_report_shape [of env filename w]
  by (auto simp add: runs_stage_def logger_info_def emit_def)

lemma hash_files_stage:
  "runs_stage 3 w (snd (hash_files env names w))"
proof (induction names arbitrary: w)
  case Nil
  show ?case by (simp add: runs_stage_refl)
next
  case (Cons n ns)
  obtain r w1 where step: "hash_and_report env n w = (r, w1)"
    by (cases "hash_and_report env n w")
  have one: "runs_stage 3 w w1"
    using hash_and_report_stage [of w env n] step by simp
  show ?case
  proof (cases r)
    case (Inl e)
    then have "trace (snd (hash_files env (n # ns) w)) = trace w1"
      using step by (simp add: log_failure_hash logger_error_def)
    then show ?thesis
      using one by (simp add: runs_stage_def)
  next
    case (Inr u)
    then have "snd (hash_files env (n # ns) w) = snd (hash_files env ns w1)"
      using step by simp
    then show ?thesis
      using one Cons.IH [of w1] runs_stage_trans by simp
  qed
qed

lemma compute_file_hashes_stage:
  "runs_stage 3 w (snd (compute_file_hashes env w))"
proof (cases "tmp w")
  case (Dir entries)
  have "runs_stage 3 w (emit EvListdir w)"
    by (simp add: runs_stage_emit)
  moreover have "runs_stage 3 (emit EvListdir w)
      (snd (hash_files env (map fst entries) (emit EvListdir w)))"
    by (rule hash_files_stage)
  ultimately show ?thesis
    using Dir runs_stage_trans by (simp add: compute_file_hashes_def)
qed (simp_all add: compute_file_hashes_def runs_stage_emit)


lemma download_repo_ends:
  fixes env w
  defines "w1 \<equiv> snd (get_content_length env w)"
  defines "w2 \<equiv> snd (create_temp_dir env w1)"
  shows "snd (download_repo env w) = w1
    \<or> snd (download_repo env w) = w2
    \<or> (\<exists>n. snd (download_repo env w) = snd (download_chunks env n w2))
    \<or> (\<exists>n. snd (download_repo env w) =
          snd (compute_file_hashes env (snd (download_chunks env n w2))))"
  unfolding w1_def w2_def download_repo_def download_repo_with_def
  apply (auto split: prod.splits sum.splits option.splits bool.splits)
  apply (metis snd_conv)+
  done

lemma one_stage_sorted:
  "list_all (\<lambda>e. stage_of e = k) evs \<Longrightarrow> sorted (map stage_of evs)"
  by (induction evs) (auto simp add: list_all_iff)

lemma stages_sorted:
  assumes "list_all (\<lambda>e. stage_of e = 1) e1"
    and "list_all (\<lambda>e. stage_of e = 2) e2"
    and "list_all (\<lambda>e. stage_of e = 3) e3"
  shows "sorted (map stage_of (EvHead # e1 @ e2 @ e3))"
  using assms one_stage_sorted [of 1 e1] one_stage_sorted [of 2 e2] one_stage_sorted [of 3 e3]
  by (auto simp add: sorted_append list_all_iff)

lemma download_repo_in_order:
  "\<exists>evs. trace (snd (download_repo env w)) = trace w @ evs \<and> sorted (map stage_of evs)"
proof -
  define w1 where "w1 = snd (get_content_length env w)"
  define w2 where "w2 = snd (create_temp_dir env w1)"
  have t1: "trace w1 = trace w @ [EvHead]"
    unfolding w1_def by (rule get_content_length_trace)
  obtain e1 where e1: "trace w2 = trace w1 @ e1" "list_all (\<lambda>e. stage_of e = 1) e1"
    using create_temp_dir_stage [of w1 env] unfolding w2_def runs_stage_def by blast
  have shape: "\<And>wf e2 e3. trace wf = trace w2 @ e2 @ e3 \<Longrightarrow>
      list_all (\<lambda>e. stage_of e = 2) e2 \<Longrightarrow> list_all (\<lambda>e. stage_of e = 3) e3 \<Longrightarrow>
      \<exists>evs. trace wf = trace w @ evs \<and> sorted (map stage_of evs)"
  proof -
    fix wf e2 e3
    assume "trace wf = trace w2 @ e2 @ e3"
      and s: "list_all (\<lambda>e. stage_of e = 2) e2" "list_all (\<lambda>e. stage_of e = 3) e3"
    then have "trace wf = trace w @ (EvHead # e1 @ e2 @ e3)"
      using t1 e1(1) by simp
    moreover have "sorted (map stage_of (EvHead # e1 @ e2 @ e3))"
      using e1(2) s by (rule stages_sorted)
    ultimately show "\<exists>evs. trace wf = trace w @ evs \<and> sorted (map stage_of evs)"
      by blast
  qed
  consider (a) "snd (download_repo env w) = w1"
    | (b) "snd (download_repo env w) = w2"
    | (c) n where "snd (download_repo env w) = snd (download_chunks env n w2)"
    | (d) n where "snd (download_repo env w) =
          snd (compute_file_hashes env (snd (download_chunks env n w2)))"
    using download_repo_ends [of env w] unfolding w1_def w2_def by blast
  then show ?thesis
  proof cases
    case a
    then have "trace (snd (download_repo env w)) = trace w @ [EvHead]"
      using t1 by simp
    moreover have "sorted (map stage_of [EvHead])"
      by simp
    ultimately show ?thesis
      by blast
  next
    case b
    then have "trace (snd (download_repo env w)) = trace w2 @ [] @ []"
      by simp
    then show ?thesis
      by (rule shape) simp_all
  next
    case c
    obtain e2 where "trace (snd (download_chunks env n w2)) = trace w2 @ e2"
      "list_all (\<lambda>e. stage_of e = 2) e2"
      using download_chunks_stage [of w2 env n] unfolding runs_stage_def by blast
    then have "trace (snd (download_repo env w)) = trace w2 @ e2 @ []"
      and "list_all (\<lambda>e. stage_of e = 2) e2"
      using c by simp_all
    then show ?thesis
      by (rule shape) simp
  next
    case d
    let ?w3 = "snd (download_chunks env n w2)"
    obtain e2 where e2: "trace ?w3 = trace w2 @ e2" "list_all (\<lambda>e. stage_of e = 2) e2"
      using download_chunks_stage [of w2 env n] unfolding runs_stage_def by blast
    obtain e3 where e3: "trace (snd (compute_file_hashes env ?w3)) = trace ?w3 @ e3"
      "list_all (\<lambda>e. stage_of e = 3) e3"
      using compute_file_hashes_stage [of ?w3 env] unfolding runs_stage_def by blast
    have "trace (snd (download_repo env w)) = trace w2 @ e2 @ e3"
      using d e2(1) e3(1) by simp
    then show ?thesis
      using e2(2) e3(2) by (rule shape)
  qed
qed

text \<open>Where a session can end, and what a stage that fails leaves behind.\<close>

lemma download_repo_without_size:
  assumes "fst (get_content_length env w) = Inr None \<or> fst (get_content_length env w) = Inl e"
  shows "snd (download_repo env w) = snd (get_content_length env w)"
proof -
  obtain r w1 where g: "get_content_length env w = (r, w1)"
    by (cases "get_content_length env w")
  with assms have "r = Inr None \<or> r = Inl e"
    by simp
  then show ?thesis
    using g by (auto simp add: download_repo_def download_repo_with_def)
qed

lemma create_temp_dir_result:
  "fst (create_temp_dir env w) = Inr True \<or> fst (create_temp_dir env w) = Inr False"
  by (simp add: create_temp_dir_def log_failure_mkdir split: option.splits)

lemma create_temp_dir_failed:
  assumes "fst (create_temp_dir env w) \<noteq> Inr True"
  shows "trace (snd (create_temp_dir env w)) = trace w @ [EvMakedirs]
    \<and> tmp (snd (create_temp_dir env w)) = Absent"
  using assms
  by (auto simp add: create_temp_dir_def log_failure_mkdir logger_error_def emit_def
      split: if_splits option.splits)

lemma download_repo_without_dir:
  assumes "fst (get_content_length env w) = Inr (Some n)"
    and "fst (create_temp_dir env (snd (get_content_length env w))) \<noteq> Inr True"
  shows "snd (download_repo env w) = snd (create_temp_dir env (snd (get_content_length env w)))"
proof -
  obtain r w1 where g: "get_content_length env w = (r, w1)"
    by (cases "get_content_length env w")
  obtain r2 w2 where c: "create_temp_dir env w1 = (r2, w2)"
    by (cases "create_temp_dir env w1")
  have r: "r = Inr (Some n)"
    using assms(1) g by simp
  have "r2 \<noteq> Inr True"
    using assms(2) g c by simp
  moreover have "r2 = Inr True \<or> r2 = Inr False"
    using create_temp_dir_result [of env w1] c by simp
  ultimately have r2: "r2 = Inr False"
    by blast
  show ?thesis
    using g c r r2 by (simp add: download_repo_def download_repo_with_def)
qed

text \<open>
  C6. The stages of a session run in the order size discovery, destination
  preparation, transfer, digesting: the events \<open>download_repo\<close> adds to the trace are
  sorted by stage. A stage that fails ends the session there. When size discovery
  returns \<open>None\<close> or raises, the session ends in the world size discovery left: the
  HEAD request is its only event and the directory is as it was, so no directory is
  created and no segment is requested. When the size is known and destination
  preparation does not return \<open>True\<close>, the session ends in the world destination
  preparation left: the HEAD request and \<open>os.makedirs\<close> are its only events and there
  is no directory, so no segment is requested. Whatever the four stages are, a
  transfer that returns \<open>False\<close> or raises ends the session in the world the transfer
  left, and a transfer that returns \<open>True\<close> hands this world to the digest stage.
\<close>

theorem session_stages_in_order:
  "(\<exists>evs. trace (snd (download_repo env w)) = trace w @ evs \<and> sorted (map stage_of evs))
   \<and> (fst (get_content_length env w) = Inr None \<or> fst (get_content_length env w) = Inl e \<longrightarrow>
        snd (download_repo env w) = snd (get_content_length env w)
        \<and> trace (snd (download_repo env w)) = trace w @ [EvHead]
        \<and> tmp (snd (download_repo env w)) = tmp w)
   \<and> (fst (get_content_length env w) = Inr (Some n) \<longrightarrow>
        fst (create_temp_dir env (snd (get_content_length env w))) \<noteq> Inr True \<longrightarrow>
        snd (download_repo env w) = snd (create_temp_dir env (snd (get_content_length env w)))
        \<and> trace (snd (download_repo env w)) = trace w @ [EvHead, EvMakedirs]
        \<and> tmp (snd (download_repo env w)) = Absent)
   \<and> (get_length w = (Inr (Some n), w1) \<longrightarrow> create_dir w1 = (Inr True, w2) \<longrightarrow>
        download n w2 = (Inr False, w3) \<longrightarrow>
        download_repo_with get_length create_dir download hash_all w = (Inr (), w3))
   \<and> (get_length w = (Inr (Some n), w1) \<longrightarrow> create_dir w1 = (Inr True, w2) \<longrightarrow>
        download n w2 = (Inl e, w3) \<longrightarrow>
        download_repo_with get_length create_dir download hash_all w = (Inl e, w3))
   \<and> (get_length w = (Inr (Some n), w1) \<longrightarrow> create_dir w1 = (Inr True, w2) \<longrightarrow>
        download n w2 = (Inr True, w3) \<longrightarrow>
        snd (download_repo_with get_length create_dir download hash_all w) = snd (hash_all w3))"
proof -
  have order: "\<exists>evs. trace (snd (download_repo env w)) = trace w @ evs
      \<and> sorted (map stage_of evs)"
    by (rule download_repo_in_order)
  have no_size: "fst (get_content_length env w) = Inr None
      \<or> fst (get_content_length env w) = Inl e \<longrightarrow>
        snd (download_repo env w) = snd (get_content_length env w)
        \<and> trace (snd (download_repo env w)) = trace w @ [EvHead]
        \<and> tmp (snd (download_repo env w)) = tmp w"
    using download_repo_without_size [of env w e]
    by (simp add: get_content_length_trace get_content_length_tmp)
  have no_dir: "fst (get_content_length env w) = Inr (Some n) \<longrightarrow>
        fst (create_temp_dir env (snd (get_content_length env w))) \<noteq> Inr True \<longrightarrow>
        snd (download_repo env w) = snd (create_temp_dir env (snd (get_content_length env w)))
        \<and> trace (snd (download_repo env w)) = trace w @ [EvHead, EvMakedirs]
        \<and> tmp (snd (download_repo env w)) = Absent"
    using download_repo_without_dir [of env w n]
      create_temp_dir_failed [of env "snd (get_content_length env w)"]
    by (simp add: get_content_length_trace)
  have no_transfer: "get_length w = (Inr (Some n), w1) \<longrightarrow> create_dir w1 = (Inr True, w2) \<longrightarrow>
        download n w2 = (Inr False, w3) \<longrightarrow>
        download_repo_with get_length create_dir download hash_all w = (Inr (), w3)"
    by (simp add: download_repo_with_def)
  have raised: "get_length w = (Inr (Some n), w1) \<longrightarrow> create_dir w1 = (Inr True, w2) \<longrightarrow>
        download n w2 = (Inl e, w3) \<longrightarrow>
        download_repo_with get_length create_dir download hash_all w = (Inl e, w3)"
    by (simp add: download_repo_with_def)
  have digest: "get_length w = (Inr (Some n), w1) \<longrightarrow> create_dir w1 = (Inr True, w2) \<longrightarrow>
        download n w2 = (Inr True, w3) \<longrightarrow>
        snd (download_repo_with get_length create_dir download hash_all w) = snd (hash_all w3)"
    by (auto simp add: download_repo_with_def split: prod.splits sum.splits)
  show ?thesis
    by (intro conjI; fact)
qed

text \<open>
  At a server that cannot be reached, at a directory that cannot be created, at a
  transfer that reports failure, at a transfer that raises (no segment to divide
  by), and at a session whose four stages all run.
\<close>

theorem session_stages_in_order_witness:
  "fst (get_content_length refused_env empty_world) = Inr None
   \<and> snd (download_repo refused_env empty_world) =
       \<lparr>tmp = Absent,
        log = [(ERROR, ''Failed to connect to server: Cannot connect to host'')],
        trace = [EvHead]\<rparr>
   \<and> fst (get_content_length readonly_env empty_world) = Inr (Some 3000)
   \<and> fst (create_temp_dir readonly_env (snd (get_content_length readonly_env empty_world))) =
       Inr False
   \<and> snd (download_repo readonly_env empty_world) =
       \<lparr>tmp = Absent,
        log = [(ERROR, ''Failed to create directory: Permission denied'')],
        trace = [EvHead, EvMakedirs]\<rparr>
   \<and> download_repo_with (get_content_length quiet_env) (create_temp_dir quiet_env)
        (\<lambda>n w. (Inr False, w)) (compute_file_hashes quiet_env) empty_world =
       (Inr (), \<lparr>tmp = Dir [], log = [], trace = [EvHead, EvMakedirs]\<rparr>)
   \<and> download_repo undivided_env empty_world =
       (Inl ZeroDivisionError, \<lparr>tmp = Dir [], log = [], trace = [EvHead, EvMakedirs]\<rparr>)
   \<and> snd (download_repo quiet_env empty_world) =
       snd (compute_file_hashes quiet_env
         \<lparr>tmp = Dir [(''temp_0_999'', [1, 2, 3]), (''temp_1000_1999'', [1, 2, 3]),
                     (''temp_2000_3000'', [1, 2, 3])],
          log = [],
          trace = [EvHead, EvMakedirs, EvGet ''bytes=0-999'', EvOpenW ''temp_0_999'',
                   EvGet ''bytes=1000-1999'', EvOpenW ''temp_1000_1999'',
                   EvGet ''bytes=2000-3000'', EvOpenW ''temp_2000_3000'']\<rparr>)
   \<and> sorted (map stage_of (trace (snd (download_repo quiet_env empty_world))))"
proof -
  let ?w1 = "\<lparr>tmp = Absent, log = [], trace = [EvHead]\<rparr>"
  let ?w2 = "\<lparr>tmp = Dir [], log = [], trace = [EvHead, EvMakedirs]\<rparr>"
  let ?w3 = "\<lparr>tmp = Dir [(''temp_0_999'', [1, 2, 3]), (''temp_1000_1999'', [1, 2, 3]),
                     (''temp_2000_3000'', [1, 2, 3])],
          log = [],
          trace = [EvHead, EvMakedirs, EvGet ''bytes=0-999'', EvOpenW ''temp_0_999'',
                   EvGet ''bytes=1000-1999'', EvOpenW ''temp_1000_1999'',
                   EvGet ''bytes=2000-3000'', EvOpenW ''temp_2000_3000'']\<rparr>"
  have refused: "get_content_length refused_env empty_world =
      (Inr None, \<lparr>tmp = Absent,
        log = [(ERROR, ''Failed to connect to server: Cannot connect to host'')],
        trace = [EvHead]\<rparr>)"
    by (simp add: run_defs refused_env_def log_failure_connect)
  have a1: "fst (get_content_length refused_env empty_world) = Inr None"
    using refused by simp
  have a2: "snd (download_repo refused_env empty_world) =
       \<lparr>tmp = Absent,
        log = [(ERROR, ''Failed to connect to server: Cannot connect to host'')],
        trace = [EvHead]\<rparr>"
    using session_stages_in_order [where env = refused_env and w = empty_world,
        THEN conjunct2, THEN conjunct1] refused
    by simp
  have readonly: "get_content_length readonly_env empty_world = (Inr (Some 3000), ?w1)"
    by (simp add: run_defs readonly_env_def)
  have denied: "create_temp_dir readonly_env ?w1 =
      (Inr False, \<lparr>tmp = Absent,
        log = [(ERROR, ''Failed to create directory: Permission denied'')],
        trace = [EvHead, EvMakedirs]\<rparr>)"
    by (simp add: create_temp_dir_def readonly_env_def quiet_env_def log_failure_mkdir
        logger_error_def emit_def)
  have b1: "fst (get_content_length readonly_env empty_world) = Inr (Some 3000)"
    using readonly by simp
  have b2: "fst (create_temp_dir readonly_env
      (snd (get_content_length readonly_env empty_world))) = Inr False"
    using readonly denied by simp
  have b3: "snd (download_repo readonly_env empty_world) =
       \<lparr>tmp = Absent,
        log = [(ERROR, ''Failed to create directory: Permission denied'')],
        trace = [EvHead, EvMakedirs]\<rparr>"
    using session_stages_in_order [where env = readonly_env and w = empty_world
        and n = 3000, THEN conjunct2, THEN conjunct2, THEN conjunct1] readonly denied
    by simp
  have quiet: "get_content_length quiet_env empty_world = (Inr (Some 3000), ?w1)"
    by (simp add: run_defs)
  have made: "create_temp_dir quiet_env ?w1 = (Inr True, ?w2)"
    by (simp add: create_temp_dir_def quiet_env_def emit_def)
  have c: "download_repo_with (get_content_length quiet_env) (create_temp_dir quiet_env)
        (\<lambda>n w. (Inr False, w)) (compute_file_hashes quiet_env) empty_world = (Inr (), ?w2)"
    using session_stages_in_order [where get_length = "get_content_length quiet_env"
        and create_dir = "create_temp_dir quiet_env" and download = "\<lambda>n w. (Inr False, w)"
        and hash_all = "compute_file_hashes quiet_env" and w = empty_world and n = 3000
        and ?w1.0 = ?w1 and ?w2.0 = ?w2 and ?w3.0 = ?w2,
        THEN conjunct2, THEN conjunct2, THEN conjunct2, THEN conjunct1] quiet made
    by simp
  have undivided: "get_content_length undivided_env empty_world = (Inr (Some 3000), ?w1)"
    by (simp add: run_defs undivided_env_def)
  have made0: "create_temp_dir undivided_env ?w1 = (Inr True, ?w2)"
    by (simp add: create_temp_dir_def undivided_env_def quiet_env_def emit_def)
  have divide: "download_chunks undivided_env 3000 ?w2 = (Inl ZeroDivisionError, ?w2)"
    by (simp add: download_chunks_def plan_ranges_def undivided_env_def quiet_env_def)
  have d: "download_repo undivided_env empty_world = (Inl ZeroDivisionError, ?w2)"
    using session_stages_in_order [where get_length = "get_content_length undivided_env"
        and create_dir = "create_temp_dir undivided_env"
        and download = "download_chunks undivided_env"
        and hash_all = "compute_file_hashes undivided_env" and w = empty_world and n = 3000
        and e = ZeroDivisionError and ?w1.0 = ?w1 and ?w2.0 = ?w2 and ?w3.0 = ?w2,
        THEN conjunct2, THEN conjunct2, THEN conjunct2, THEN conjunct2, THEN conjunct1]
      undivided made0 divide
    by (simp add: download_repo_def)
  have fetched: "download_chunks quiet_env 3000 ?w2 = (Inr True, ?w3)"
    by (simp add: run_defs)
  have e: "snd (download_repo quiet_env empty_world) = snd (compute_file_hashes quiet_env ?w3)"
    using session_stages_in_order [where get_length = "get_content_length quiet_env"
        and create_dir = "create_temp_dir quiet_env" and download = "download_chunks quiet_env"
        and hash_all = "compute_file_hashes quiet_env" and w = empty_world and n = 3000
        and ?w1.0 = ?w1 and ?w2.0 = ?w2 and ?w3.0 = ?w3,
        THEN conjunct2, THEN conjunct2, THEN conjunct2, THEN conjunct2, THEN conjunct2]
      quiet made fetched
    by (simp add: download_repo_def)
  have f: "sorted (map stage_of (trace (snd (download_repo quiet_env empty_world))))"
    using session_stages_in_order [where env = quiet_env and w = empty_world, THEN conjunct1]
    by (auto simp add: empty_world_def)
  show ?thesis
    by (intro conjI; fact)
qed

section \<open>A response without Content-Length\<close>

text \<open>
  C4, as the specification states it, does not hold. The server answers the size
  request without a Content-Length header: \<open>headers.get('Content-Length', 0)\<close> gives
  0, so \<open>get_content_length\<close> returns 0, not \<open>None\<close>, and the session goes on. With
  three segments the directory is created, the ranges \<open>bytes=0--1\<close> (twice) and
  \<open>bytes=0-0\<close> are requested, the files \<open>temp_0_-1\<close> and \<open>temp_0_0\<close> exist afterwards
  and the digest stage is entered.
\<close>

theorem missing_content_length_session_proceeds:
  "head_reply no_length_env = Inr Map.empty
   \<and> fst (get_content_length no_length_env empty_world) = Inr (Some 0)
   \<and> tmp (snd (download_repo no_length_env empty_world)) =
       Dir [(''temp_0_-1'', [1, 2, 3]), (''temp_0_0'', [1, 2, 3])]
   \<and> trace (snd (download_repo no_length_env empty_world)) =
       [EvHead, EvMakedirs, EvGet ''bytes=0--1'', EvOpenW ''temp_0_-1'',
        EvGet ''bytes=0--1'', EvOpenW ''temp_0_-1'', EvGet ''bytes=0-0'',
        EvOpenW ''temp_0_0'', EvListdir, EvOpenR ''temp_0_-1'']"
  by (simp add: run_defs)

text \<open>
  C4, amended. When the response to the size request has no Content-Length header,
  \<open>get_content_length\<close> returns 0 and the session is the session of a resource of
  size 0: when there is no directory yet, it can be created and there is at least
  one segment, the directory is created, the segments planned for the size 0 are
  requested and the digest stage is entered. The session ends at size discovery, with
  the HEAD request as its only event, the directory as it was and the error
  \<open>Failed to connect to server: ...\<close> logged, when the size request raises
  \<open>ClientConnectorError\<close>.
\<close>

theorem missing_content_length_is_size_zero:
  "(head_reply env = Inr headers \<longrightarrow> headers ''Content-Length'' = None \<longrightarrow>
      get_content_length env w = (Inr (Some 0), emit EvHead w)
      \<and> download_repo env w =
          download_repo_with (\<lambda>w. (Inr (Some 0), emit EvHead w)) (create_temp_dir env)
            (download_chunks env) (compute_file_hashes env) w
      \<and> (tmp w = Absent \<longrightarrow> makedirs_error env = None \<longrightarrow> NUM_OF_BLOCKS env \<noteq> 0 \<longrightarrow>
           snd (download_repo env w) =
             snd (compute_file_hashes env (snd (download_chunks env 0
               ((emit EvMakedirs (emit EvHead w))\<lparr>tmp := Dir []\<rparr>))))))
   \<and> (head_reply env = Inl (ClientConnectorError m) \<longrightarrow>
      download_repo env w =
        (Inr (), logger_error (''Failed to connect to server: '' @ m) (emit EvHead w)))"
proof -
  have size: "get_content_length env w = (Inr (Some 0), emit EvHead w)"
    if "head_reply env = Inr headers" "headers ''Content-Length'' = None"
    using that by (simp add: get_content_length_def head_content_length_def)
  have session: "download_repo env w =
          download_repo_with (\<lambda>w. (Inr (Some 0), emit EvHead w)) (create_temp_dir env)
            (download_chunks env) (compute_file_hashes env) w"
    if "head_reply env = Inr headers" "headers ''Content-Length'' = None"
    using size [OF that] by (simp add: download_repo_def download_repo_with_def)
  have later: "snd (download_repo env w) =
             snd (compute_file_hashes env (snd (download_chunks env 0
               ((emit EvMakedirs (emit EvHead w))\<lparr>tmp := Dir []\<rparr>))))"
    if h: "head_reply env = Inr headers" "headers ''Content-Length'' = None"
      and a: "tmp w = Absent" "makedirs_error env = None" "NUM_OF_BLOCKS env \<noteq> 0"
  proof -
    let ?w2 = "(emit EvMakedirs (emit EvHead w))\<lparr>tmp := Dir []\<rparr>"
    have c: "create_temp_dir env (emit EvHead w) = (Inr True, ?w2)"
      using a by (simp add: create_temp_dir_def emit_def)
    obtain r3 w3 where d: "download_chunks env 0 ?w2 = (r3, w3)"
      by (cases "download_chunks env 0 ?w2")
    have r3: "r3 = Inr True"
      using download_chunks_result [of env 0 ?w2] d a by simp
    obtain r4 w4 where f: "compute_file_hashes env w3 = (r4, w4)"
      by (cases "compute_file_hashes env w3")
    show ?thesis
      using size [OF h] c d r3 f
      by (cases r4) (simp_all add: download_repo_def download_repo_with_def)
  qed
  have refused: "download_repo env w =
        (Inr (), logger_error (''Failed to connect to server: '' @ m) (emit EvHead w))"
    if "head_reply env = Inl (ClientConnectorError m)"
    using that
    by (simp add: download_repo_def download_repo_with_def get_content_length_def
        head_content_length_def log_failure_connect)
  show ?thesis
    using size session later refused by blast
qed

text \<open>
  At the server that answers without headers, and at the server that cannot be
  reached.
\<close>

theorem missing_content_length_is_size_zero_witness:
  "head_reply no_length_env = Inr Map.empty
   \<and> get_content_length no_length_env empty_world =
       (Inr (Some 0), \<lparr>tmp = Absent, log = [], trace = [EvHead]\<rparr>)
   \<and> snd (download_repo no_length_env empty_world) =
       snd (compute_file_hashes no_length_env
         \<lparr>tmp = Dir [(''temp_0_-1'', [1, 2, 3]), (''temp_0_0'', [1, 2, 3])],
          log = [],
          trace = [EvHead, EvMakedirs, EvGet ''bytes=0--1'', EvOpenW ''temp_0_-1'',
                   EvGet ''bytes=0--1'', EvOpenW ''temp_0_-1'', EvGet ''bytes=0-0'',
                   EvOpenW ''temp_0_0'']\<rparr>)
   \<and> head_reply refused_env = Inl (ClientConnectorError ''Cannot connect to host'')
   \<and> download_repo refused_env empty_world =
       (Inr (), \<lparr>tmp = Absent,
          log = [(ERROR, ''Failed to connect to server: Cannot connect to host'')],
          trace = [EvHead]\<rparr>)"
proof -
  have h: "head_reply no_length_env = Inr Map.empty"
    by (simp add: no_length_env_def quiet_env_def)
  have none: "Map.empty ''Content-Length'' = (None :: string option)"
    by simp
  have a: "tmp empty_world = Absent" "makedirs_error no_length_env = None"
    "NUM_OF_BLOCKS no_length_env \<noteq> 0"
    by (simp_all add: empty_world_def no_length_env_def quiet_env_def)
  note t = missing_content_length_is_size_zero [where env = no_length_env
      and w = empty_world and headers = Map.empty, THEN conjunct1, rule_format, OF h none]
  have size: "get_content_length no_length_env empty_world =
       (Inr (Some 0), \<lparr>tmp = Absent, log = [], trace = [EvHead]\<rparr>)"
    using t [THEN conjunct1] by (simp add: emit_def empty_world_def)
  have fetched: "download_chunks no_length_env 0
      ((emit EvMakedirs (emit EvHead empty_world))\<lparr>tmp := Dir []\<rparr>) =
      (Inr True, \<lparr>tmp = Dir [(''temp_0_-1'', [1, 2, 3]), (''temp_0_0'', [1, 2, 3])],
          log = [],
          trace = [EvHead, EvMakedirs, EvGet ''bytes=0--1'', EvOpenW ''temp_0_-1'',
                   EvGet ''bytes=0--1'', EvOpenW ''temp_0_-1'', EvGet ''bytes=0-0'',
                   EvOpenW ''temp_0_0'']\<rparr>)"
    by (simp add: run_defs)
  have later: "snd (download_repo no_length_env empty_world) =
       snd (compute_file_hashes no_length_env
         \<lparr>tmp = Dir [(''temp_0_-1'', [1, 2, 3]), (''temp_0_0'', [1, 2, 3])],
          log = [],
          trace = [EvHead, EvMakedirs, EvGet ''bytes=0--1'', EvOpenW ''temp_0_-1'',
                   EvGet ''bytes=0--1'', EvOpenW ''temp_0_-1'', EvGet ''bytes=0-0'',
                   EvOpenW ''temp_0_0'']\<rparr>)"
    using t [THEN conjunct2, THEN conjunct2, rule_format, OF a] fetched by simp
  have r: "head_reply refused_env = Inl (ClientConnectorError ''Cannot connect to host'')"
    by (simp add: refused_env_def quiet_env_def)
  have refused: "download_repo refused_env empty_world =
       (Inr (), \<lparr>tmp = Absent,
          log = [(ERROR, ''Failed to connect to server: Cannot connect to host'')],
          trace = [EvHead]\<rparr>)"
    using missing_content_length_is_size_zero [where env = refused_env and w = empty_world
        and m = "''Cannot connect to host''", THEN conjunct2, rule_format, OF r]
    by (simp add: logger_error_def emit_def empty_world_def)
  show ?thesis
    by (intro conjI; fact)
qed

end
